theory Spec2Isabelle
  imports Complex_Main "HOL-Library.AList"
begin

text \<open>
  A model of the application intake of the loan platform: the handler
  \<^verbatim>\<open>POST /api/applications\<close> of \<^verbatim>\<open>routes/application.routes.js\<close> with its field
  normalizer, document classifier, loan-term resolver and validator, the mail helper
  \<^verbatim>\<open>utils/sendEmail.js\<close>, and the \<^verbatim>\<open>pre('save')\<close> hook of the Application model that
  assigns application numbers.  The data base, the mail transport, \<^verbatim>\<open>JSON.parse\<close> and the
  conversion of strings to numbers are parameters of the model.
\<close>

section \<open>JavaScript values\<close>

text \<open>
  The handler works on loosely typed request data.  A JavaScript Number is modelled as an
  exact real number or one of the three non-finite values: arithmetic is carried out in the
  reals, so rounding error and overflow of IEEE doubles are not part of the model.
  \<^verbatim>\<open>undefined\<close> is \<open>None\<close> of an option type.  The own properties of an object are an
  association list in creation order.
\<close>

datatype jsnum = NaN | PosInf | NegInf | Fin real

datatype json =
    JNull
  | JBool bool
  | JNum jsnum
  | JStr string
  | JArr "json list"
  | JObj "(string \<times> json) list"

text \<open>Errors that the handler can throw or receive from its collaborators.\<close>

datatype exn =
    TypeError string
  | ValidationError "(string \<times> string) list"
  | OtherError string

fun num_falsy :: "jsnum \<Rightarrow> bool" where
  "num_falsy NaN = True"
| "num_falsy (Fin r) = (r = 0)"
| "num_falsy _ = False"

fun truthy :: "json \<Rightarrow> bool" where
  "truthy JNull = False"
| "truthy (JBool b) = b"
| "truthy (JNum n) = (\<not> num_falsy n)"
| "truthy (JStr s) = (s \<noteq> [])"
| "truthy (JArr _) = True"
| "truthy (JObj _) = True"

fun truthy_opt :: "json option \<Rightarrow> bool" where
  "truthy_opt None = False"
| "truthy_opt (Some v) = truthy v"

text \<open>\<^verbatim>\<open>a || b\<close> and \<^verbatim>\<open>a ?? b\<close> on possibly undefined values.\<close>

definition js_or :: "json option \<Rightarrow> json option \<Rightarrow> json option" where
  "js_or a b = (if truthy_opt a then a else b)"

fun nullish :: "json option \<Rightarrow> bool" where
  "nullish None = True"
| "nullish (Some JNull) = True"
| "nullish _ = False"

definition js_coalesce :: "json option \<Rightarrow> json option \<Rightarrow> json option" where
  "js_coalesce a b = (if nullish a then b else a)"

text \<open>
  Reading a property that no built-in prototype defines (\<^verbatim>\<open>loanAmount\<close>,
  \<^verbatim>\<open>employmentType\<close>, ...): own properties of an object, \<^verbatim>\<open>undefined\<close> on
  arrays and primitives.  The handler never reads a property of \<^verbatim>\<open>null\<close>.
\<close>

fun get_prop :: "json \<Rightarrow> string \<Rightarrow> json option" where
  "get_prop (JObj kvs) k = map_of kvs k"
| "get_prop _ k = None"

text \<open>\<^verbatim>\<open>String.prototype.trim\<close>, for strings of ASCII characters.\<close>

definition is_space :: "char \<Rightarrow> bool" where
  "is_space c = (c \<in> set [CHR '' '', CHR 0x09, CHR 0x0A, CHR 0x0B, CHR 0x0C, CHR 0x0D])"

definition trim :: "string \<Rightarrow> string" where
  "trim s = rev (dropWhile is_space (rev (dropWhile is_space s)))"

section \<open>Uploaded files and their grouping\<close>

record upload =
  fieldname :: string
  originalname :: string
  filename :: string

text \<open>
  \<^verbatim>\<open>files\<close> and \<^verbatim>\<open>dynamicFiles\<close> are object literals \<^verbatim>\<open>{}\<close>: their own properties
  are kept in creation order, and a read of a name that \<^verbatim>\<open>Object.prototype\<close> defines
  finds the inherited value, which is truthy and has no \<^verbatim>\<open>push\<close>.
\<close>

type_synonym groups = "(string \<times> upload list) list"

definition Object_prototype_names :: "string list" where
  "Object_prototype_names =
     [''constructor'', ''__defineGetter__'', ''__defineSetter__'', ''hasOwnProperty'',
      ''__lookupGetter__'', ''__lookupSetter__'', ''isPrototypeOf'',
      ''propertyIsEnumerable'', ''toString'', ''valueOf'', ''__proto__'',
      ''toLocaleString'']"

definition push_file :: "groups \<Rightarrow> string \<Rightarrow> upload \<Rightarrow> exn + groups" where
  "push_file g k f =
     (if k \<in> set Object_prototype_names then Inl (TypeError ''push is not a function'')
      else (case map_of g k of
              None \<Rightarrow> Inr (g @ [(k, [f])])
            | Some fs \<Rightarrow> Inr (AList.update k (fs @ [f]) g)))"

definition dynamic_prefix :: string where
  "dynamic_prefix = ''dynamicFiles_''"

definition startsWith :: "string \<Rightarrow> string \<Rightarrow> bool" where
  "startsWith s p = (take (length p) s = p)"

text \<open>\<^verbatim>\<open>s.replace(p, '')\<close> with a string pattern: the first occurrence of \<open>p\<close> is removed.\<close>

fun remove_first :: "string \<Rightarrow> string \<Rightarrow> string" where
  "remove_first p [] = []"
| "remove_first p (c # cs) =
     (if startsWith (c # cs) p then drop (length p) (c # cs) else c # remove_first p cs)"

text \<open>The \<^verbatim>\<open>req.files.forEach\<close> loop; the pair is \<^verbatim>\<open>(files, dynamicFiles)\<close>.\<close>

fun organize :: "upload list \<Rightarrow> groups \<times> groups \<Rightarrow> exn + (groups \<times> groups)" where
  "organize [] acc = Inr acc"
| "organize (f # fs) (files, dynamicFiles) =
     (if startsWith (fieldname f) dynamic_prefix
      then (case push_file dynamicFiles (remove_first dynamic_prefix (fieldname f)) f of
              Inl e \<Rightarrow> Inl e
            | Inr d \<Rightarrow> organize fs (files, d))
      else (case push_file files (fieldname f) f of
              Inl e \<Rightarrow> Inl e
            | Inr s \<Rightarrow> organize fs (s, dynamicFiles)))"

text \<open>
  \<^verbatim>\<open>Object.keys\<close>: own keys that are array indices (canonical decimal numerals up to
  \<open>2\<^sup>3\<^sup>2 - 2\<close>) come first in ascending numeric order, all other keys follow in creation
  order.
\<close>

definition is_digit :: "char \<Rightarrow> bool" where
  "is_digit c = (48 \<le> (of_char c :: nat) \<and> (of_char c :: nat) \<le> 57)"

definition digit_val :: "char \<Rightarrow> nat" where
  "digit_val c = of_char c - 48"

definition decimal_val :: "string \<Rightarrow> nat" where
  "decimal_val s = foldl (\<lambda>a c. 10 * a + digit_val c) 0 s"

definition is_array_index :: "string \<Rightarrow> bool" where
  "is_array_index s =
     (s \<noteq> [] \<and> list_all is_digit s \<and> (s = ''0'' \<or> hd s \<noteq> CHR ''0'')
      \<and> decimal_val s \<le> 4294967294)"

definition own_key_order :: "string list \<Rightarrow> string list" where
  "own_key_order ks =
     sort_key decimal_val (filter is_array_index ks) @ filter (\<lambda>k. \<not> is_array_index k) ks"

definition Object_keys :: "groups \<Rightarrow> string list" where
  "Object_keys g = own_key_order (map fst g)"

section \<open>Document records\<close>

record document =
  doc_type :: string
  doc_name :: string
  url :: string
  status :: string

definition mk_document :: "string \<Rightarrow> upload \<Rightarrow> document" where
  "mk_document t f =
     \<lparr>doc_type = t, doc_name = originalname f, url = ''/uploads/'' @ filename f,
      status = ''Pending''\<rparr>"

definition pushGroup :: "upload list option \<Rightarrow> string \<Rightarrow> document list" where
  "pushGroup arr t = map (mk_document t) (case arr of None \<Rightarrow> [] | Some fs \<Rightarrow> fs)"

definition selfie_documents :: "groups \<Rightarrow> document list" where
  "selfie_documents files =
     (case map_of files ''selfie'' of
        Some (selfieFile # _) \<Rightarrow> [mk_document ''Selfie'' selfieFile]
      | _ \<Rightarrow> [])"

definition static_documents :: "groups \<Rightarrow> document list" where
  "static_documents files =
     pushGroup (map_of files ''idProof'') ''ID''
     @ pushGroup (map_of files ''addressProof'') ''Address''
     @ pushGroup (map_of files ''incomeProof'') ''Income''
     @ pushGroup (map_of files ''bankStatement'') ''Bank Statement''
     @ pushGroup (map_of files ''otherDocuments'') ''Other''
     @ selfie_documents files"

definition dynamic_type :: "string \<Rightarrow> string" where
  "dynamic_type fieldName = ''Dynamic: '' @ fieldName"

definition group_files :: "groups \<Rightarrow> string \<Rightarrow> upload list" where
  "group_files g k = (case map_of g k of None \<Rightarrow> [] | Some fs \<Rightarrow> fs)"

definition file_ref :: "upload \<Rightarrow> json" where
  "file_ref f =
     JObj [(''name'', JStr (originalname f)), (''url'', JStr (''/uploads/'' @ filename f))]"

text \<open>
  A write \<^verbatim>\<open>dynamicFields[fieldName] = v\<close>.  The module is strict code, so a write to a
  property of a primitive throws.  Writes to an array object (index, \<^verbatim>\<open>length\<close> or named
  property) are outside the model: the constructor \<open>ArrayTarget\<close> marks them.
\<close>

datatype 'a classified = Done 'a | Thrown exn | ArrayTarget

fun write_field :: "json \<Rightarrow> string \<Rightarrow> json \<Rightarrow> json classified" where
  "write_field (JObj kvs) k v = Done (JObj (AList.update k v kvs))"
| "write_field (JArr xs) k v = ArrayTarget"
| "write_field _ k v = Thrown (TypeError ''Cannot create property'')"

definition or_empty_object :: "json option \<Rightarrow> json" where
  "or_empty_object raw =
     (case raw of None \<Rightarrow> JObj [] | Some v \<Rightarrow> if truthy v then v else JObj [])"

text \<open>
  The loop \<^verbatim>\<open>Object.keys(dynamicFiles).forEach(fieldName => ...)\<close>: the documents of the
  group are pushed, then the group's file references are stored under the field's name.
\<close>

fun dynamic_loop ::
  "groups \<Rightarrow> string list \<Rightarrow> document list \<Rightarrow> json \<Rightarrow> (document list \<times> json) classified"
where
  "dynamic_loop dynamicFiles [] documents dynamicFields = Done (documents, dynamicFields)"
| "dynamic_loop dynamicFiles (fieldName # rest) documents dynamicFields =
     (let fieldFiles = group_files dynamicFiles fieldName;
          documents' = documents @ map (mk_document (dynamic_type fieldName)) fieldFiles;
          initialised =
            (if \<not> truthy_opt (get_prop dynamicFields fieldName)
             then write_field dynamicFields fieldName (JArr [])
             else Done dynamicFields)
      in case initialised of
           Done d \<Rightarrow>
             (case write_field d fieldName (JArr (map file_ref fieldFiles)) of
                Done d' \<Rightarrow> dynamic_loop dynamicFiles rest documents' d'
              | Thrown e \<Rightarrow> Thrown e
              | ArrayTarget \<Rightarrow> ArrayTarget)
         | Thrown e \<Rightarrow> Thrown e
         | ArrayTarget \<Rightarrow> ArrayTarget)"

text \<open>Lines 145-195 of the handler: the documents array and the dynamic fields.\<close>

definition assemble ::
  "groups \<times> groups \<Rightarrow> json option \<Rightarrow> (document list \<times> json) classified" where
  "assemble grouped rawDynamicFields =
     (case grouped of (files, dynamicFiles) \<Rightarrow>
        dynamic_loop dynamicFiles (Object_keys dynamicFiles) (static_documents files)
          (or_empty_object rawDynamicFields))"

text \<open>The Document Classifier as a whole: grouping followed by assembly.\<close>

definition classify ::
  "upload list \<Rightarrow> json option \<Rightarrow> (document list \<times> json) classified" where
  "classify batch rawDynamicFields =
     (case organize batch ([], []) of
        Inl e \<Rightarrow> Thrown e
      | Inr grouped \<Rightarrow> assemble grouped rawDynamicFields)"

section \<open>Loan products, interest rate and EMI\<close>

record rate_band =
  rate_min :: "real option"
  rate_max :: "real option"
  rate_default :: "real option"

record loan =
  loan_id :: string
  loan_type :: string
  interestRate :: "rate_band option"

text \<open>\<^verbatim>\<open>loan.interestRate?.default ?? loan.interestRate?.min ?? 0\<close>\<close>

definition annualRate :: "loan \<Rightarrow> real" where
  "annualRate loan =
     (case Option.bind (interestRate loan) rate_default of
        Some d \<Rightarrow> d
      | None \<Rightarrow> (case Option.bind (interestRate loan) rate_min of Some m \<Rightarrow> m | None \<Rightarrow> 0))"

definition Math_round :: "real \<Rightarrow> real" where
  "Math_round x = of_int \<lfloor>x + 1 / 2\<rfloor>"

text \<open>\<^verbatim>\<open>Math.pow\<close> is only called with a base above one.\<close>

definition Math_pow :: "real \<Rightarrow> real \<Rightarrow> real" where
  "Math_pow b e = b powr e"

definition compute_emi :: "real \<Rightarrow> real \<Rightarrow> real \<Rightarrow> real" where
  "compute_emi loanAmount loanTenure rate =
     (let monthlyRate = rate / 100 / 12 in
      if monthlyRate > 0
      then Math_round
             ((loanAmount * monthlyRate * Math_pow (1 + monthlyRate) loanTenure) /
              (Math_pow (1 + monthlyRate) loanTenure - 1))
      else 0)"

section \<open>Applications\<close>

datatype app_status = Draft | Submitted | Under_Review | Documents_Pending | Approved | Rejected

record loan_details =
  loanAmount :: real
  loanTenure :: real
  ld_interestRate :: real
  emi :: real

record employment_info =
  employmentType :: string
  monthlyIncome :: jsnum
  companyName :: "string option"
  designation :: "string option"
  workExperience :: "jsnum option"
  businessType :: "string option"
  businessAge :: "jsnum option"

text \<open>The argument of \<^verbatim>\<open>Application.create\<close>, and a stored application.\<close>

record new_application =
  userId :: string
  loanId :: string
  loanType :: string
  personalInfo :: "json option"
  address :: "json option"
  employmentInfo :: employment_info
  loanDetails :: loan_details
  documents :: "document list"
  dynamicFields :: json
  app_status :: app_status

record application = new_application +
  applicationNumber :: "string option"

subsection \<open>Application number (the \<^verbatim>\<open>pre('save')\<close> hook)\<close>

fun String_nat :: "nat \<Rightarrow> string" where
  "String_nat n =
     (if n < 10 then [char_of (48 + n)]
      else String_nat (n div 10) @ [char_of (48 + n mod 10)])"

declare String_nat.simps [simp del]

definition padStart :: "nat \<Rightarrow> char \<Rightarrow> string \<Rightarrow> string" where
  "padStart w c s = replicate (w - length s) c @ s"

definition number_format :: "nat \<Rightarrow> string" where
  "number_format count = ''APP'' @ padStart 6 (CHR ''0'') (String_nat (count + 1))"

text \<open>
  \<open>count\<close> is the result of \<^verbatim>\<open>countDocuments()\<close> at the time of the save;
  \<^verbatim>\<open>!this.applicationNumber\<close> holds for \<^verbatim>\<open>undefined\<close> and for the empty string.
\<close>

definition pre_save :: "nat \<Rightarrow> application \<Rightarrow> application" where
  "pre_save count this =
     (if (applicationNumber this = None \<or> applicationNumber this = Some [])
         \<and> app_status this \<noteq> Draft
      then this\<lparr>applicationNumber := Some (number_format count)\<rparr>
      else this)"

text \<open>
  A history of saves of one application: before each save the caller has set the status,
  and the collection holds \<open>count\<close> documents when the hook runs.
\<close>

fun saves :: "application \<Rightarrow> (app_status \<times> nat) list \<Rightarrow> application" where
  "saves this [] = this"
| "saves this ((st, count) # later) = saves (pre_save count (this\<lparr>app_status := st\<rparr>)) later"

section \<open>Collaborators\<close>

record mail =
  mail_to :: "json option"
  mail_subject :: string


record env =
  JSON_parse :: "string \<Rightarrow> json option"
  StringToNumber :: "string \<Rightarrow> jsnum"
  ArrayToString :: "json list \<Rightarrow> string"
  ObjectId_isValid :: "json \<Rightarrow> bool"
  Loan_findById :: "json \<Rightarrow> exn + loan option"
  Application_create :: "new_application \<Rightarrow> exn + application"
  process_env :: "string \<Rightarrow> string option"
  transport_sendMail :: "mail \<Rightarrow> exn + string"

subsection \<open>\<^verbatim>\<open>utils/sendEmail.js\<close>\<close>





section \<open>The handler \<^verbatim>\<open>POST /api/applications\<close>\<close>

record request =
  req_files :: "upload list option"
  req_body :: "(string \<times> json) list"
  req_user :: string

datatype message =
    ValidLoanIdRequired
  | LoanNotFound
  | LoanDetailsRequired
  | LoanAmountRequired
  | LoanTenureRequired
  | LoanAmountNotNumber "json option"
  | LoanTenureNotNumber "json option"
  | LoanAmountNotPositive jsnum
  | LoanTenureNotPositive jsnum
  | EmploymentTypeRequired
  | MonthlyIncomeInvalid
  | LoanAmountValidationFailed string
  | ValidationFailed "string list"
  | ErrorMessage string

datatype response = Reply nat message | Created application

text \<open>The \<^verbatim>\<open>catch\<close> clause of the handler.\<close>

fun on_error :: "exn \<Rightarrow> response" where
  "on_error (ValidationError errors) =
     (case map_of errors ''loanDetails.loanAmount'' of
        Some m \<Rightarrow> Reply 400 (LoanAmountValidationFailed m)
      | None \<Rightarrow> Reply 400 (ValidationFailed (map snd errors)))"
| "on_error (TypeError m) = Reply 500 (ErrorMessage (if m = [] then ''Server error'' else m))"
| "on_error (OtherError m) = Reply 500 (ErrorMessage (if m = [] then ''Server error'' else m))"

subsection \<open>Field Normalizer (lines 41-46)\<close>

definition json_fields :: "string list" where
  "json_fields = [''personalInfo'', ''address'', ''employmentInfo'', ''loanDetails'', ''dynamicFields'']"

definition normalize_field :: "env \<Rightarrow> (string \<times> json) list \<Rightarrow> string \<Rightarrow> (string \<times> json) list" where
  "normalize_field e applicationData f =
     (case map_of applicationData f of
        Some (JStr s) \<Rightarrow>
          (case JSON_parse e s of
             Some v \<Rightarrow> AList.update f v applicationData
           | None \<Rightarrow> applicationData)
      | _ \<Rightarrow> applicationData)"

definition normalize :: "env \<Rightarrow> (string \<times> json) list \<Rightarrow> (string \<times> json) list" where
  "normalize e applicationData = foldl (normalize_field e) applicationData json_fields"

subsection \<open>Number coercion\<close>

fun ToNumber :: "env \<Rightarrow> json option \<Rightarrow> jsnum" where
  "ToNumber e None = NaN"
| "ToNumber e (Some JNull) = Fin 0"
| "ToNumber e (Some (JBool b)) = Fin (if b then 1 else 0)"
| "ToNumber e (Some (JNum n)) = n"
| "ToNumber e (Some (JStr s)) = (if trim s = [] then Fin 0 else StringToNumber e s)"
| "ToNumber e (Some (JArr xs)) =
     (let s = ArrayToString e xs in if trim s = [] then Fin 0 else StringToNumber e s)"
| "ToNumber e (Some (JObj kvs)) = NaN"

fun num_le0 :: "jsnum \<Rightarrow> bool" where
  "num_le0 (Fin r) = (r \<le> 0)"
| "num_le0 NegInf = True"
| "num_le0 _ = False"

subsection \<open>Loan details (lines 64-134)\<close>

fun is_object :: "json \<Rightarrow> bool" where
  "is_object (JObj _) = True"
| "is_object (JArr _) = True"
| "is_object _ = False"

fun key_count :: "json \<Rightarrow> nat" where
  "key_count (JObj kvs) = length (remdups (map fst kvs))"
| "key_count (JArr xs) = length xs"
| "key_count _ = 0"

text \<open>\<^verbatim>\<open>x === undefined || x === null || x === ''\<close>\<close>

definition missing :: "json option \<Rightarrow> bool" where
  "missing x = (nullish x \<or> x = Some (JStr []))"

definition loanAmountRaw :: "json \<Rightarrow> json option" where
  "loanAmountRaw ld = js_coalesce (get_prop ld ''loanAmount'') (get_prop ld ''principal'')"

definition loanTenureRaw :: "json \<Rightarrow> json option" where
  "loanTenureRaw ld = js_coalesce (get_prop ld ''loanTenure'') (get_prop ld ''tenureMonths'')"

definition validate_loan_details :: "env \<Rightarrow> (string \<times> json) list \<Rightarrow> response + real \<times> real" where
  "validate_loan_details e applicationData =
     (let ld = or_empty_object (map_of applicationData ''loanDetails'') in
      if \<not> is_object ld \<or> key_count ld = 0 then Inl (Reply 400 LoanDetailsRequired)
      else if missing (loanAmountRaw ld) then Inl (Reply 400 LoanAmountRequired)
      else if missing (loanTenureRaw ld) then Inl (Reply 400 LoanTenureRequired)
      else (case ToNumber e (loanAmountRaw ld) of
              Fin amount \<Rightarrow>
                (case ToNumber e (loanTenureRaw ld) of
                   Fin tenure \<Rightarrow>
                     if amount \<le> 0 then Inl (Reply 400 (LoanAmountNotPositive (Fin amount)))
                     else if tenure \<le> 0 then Inl (Reply 400 (LoanTenureNotPositive (Fin tenure)))
                     else Inr (amount, tenure)
                 | _ \<Rightarrow> Inl (Reply 400 (LoanTenureNotNumber (loanTenureRaw ld))))
            | _ \<Rightarrow> Inl (Reply 400 (LoanAmountNotNumber (loanAmountRaw ld)))))"

subsection \<open>Employment information (lines 197-226)\<close>

text \<open>\<^verbatim>\<open>x?.trim() || undefined\<close>: a value that is neither nullish nor a string has no \<^verbatim>\<open>trim\<close>.\<close>

fun opt_trim :: "json option \<Rightarrow> exn + string option" where
  "opt_trim None = Inr None"
| "opt_trim (Some JNull) = Inr None"
| "opt_trim (Some (JStr s)) = Inr (if trim s = [] then None else Some (trim s))"
| "opt_trim (Some _) = Inl (TypeError ''trim is not a function'')"

text \<open>\<^verbatim>\<open>x ? Number(x) : undefined\<close>\<close>

definition opt_number :: "env \<Rightarrow> json option \<Rightarrow> jsnum option" where
  "opt_number e x = (if truthy_opt x then Some (ToNumber e x) else None)"

definition finalEmploymentInfo :: "env \<Rightarrow> json \<Rightarrow> string \<Rightarrow> jsnum \<Rightarrow> exn + employment_info" where
  "finalEmploymentInfo e info etype income =
     (case opt_trim (get_prop info ''companyName'') of
        Inl err \<Rightarrow> Inl err
      | Inr company \<Rightarrow>
     (case opt_trim (get_prop info ''designation'') of
        Inl err \<Rightarrow> Inl err
      | Inr desig \<Rightarrow>
     (case opt_trim (get_prop info ''businessType'') of
        Inl err \<Rightarrow> Inl err
      | Inr btype \<Rightarrow>
          Inr \<lparr>employmentType = trim etype, monthlyIncome = income, companyName = company,
               designation = desig,
               workExperience = opt_number e (get_prop info ''workExperience''),
               businessType = btype,
               businessAge = opt_number e (get_prop info ''businessAge'')\<rparr>)))"

definition validate_employment :: "env \<Rightarrow> (string \<times> json) list \<Rightarrow> response + employment_info" where
  "validate_employment e applicationData =
     (let info = or_empty_object (map_of applicationData ''employmentInfo'');
          etype = get_prop info ''employmentType''
      in if \<not> truthy_opt etype then Inl (Reply 400 EmploymentTypeRequired)
         else (case etype of
                 Some (JStr s) \<Rightarrow>
                   if trim s = [] then Inl (Reply 400 EmploymentTypeRequired)
                   else (let income = ToNumber e (get_prop info ''monthlyIncome'') in
                         if num_falsy income \<or> income = NaN \<or> num_le0 income
                         then Inl (Reply 400 MonthlyIncomeInvalid)
                         else (case finalEmploymentInfo e info s income of
                                 Inl err \<Rightarrow> Inl (on_error err)
                               | Inr final \<Rightarrow> Inr final))
               | _ \<Rightarrow> Inl (on_error (TypeError ''employmentType.trim is not a function''))))"

subsection \<open>The whole handler\<close>

datatype 'a step = Next 'a | Stop response | OutsideModel

definition loan_reference :: "(string \<times> json) list \<Rightarrow> json option" where
  "loan_reference applicationData =
     js_or (map_of applicationData ''loanId'') (map_of applicationData ''loanProductId'')"

text \<open>Everything up to the call of \<^verbatim>\<open>Application.create\<close>; the result is its argument.\<close>

definition uploaded :: "request \<Rightarrow> upload list" where
  "uploaded req = (case req_files req of None \<Rightarrow> [] | Some fs \<Rightarrow> fs)"

definition prepare :: "env \<Rightarrow> request \<Rightarrow> new_application step" where
  "prepare e req =
     (case organize (uploaded req) ([], []) of
        Inl err \<Rightarrow> Stop (on_error err)
      | Inr grouped \<Rightarrow>
     (let applicationData = normalize e (req_body req) in
      case loan_reference applicationData of
        None \<Rightarrow> Stop (Reply 400 ValidLoanIdRequired)
      | Some lid \<Rightarrow>
          if \<not> truthy lid \<or> \<not> ObjectId_isValid e lid then Stop (Reply 400 ValidLoanIdRequired)
          else
     (case Loan_findById e lid of
        Inl err \<Rightarrow> Stop (on_error err)
      | Inr None \<Rightarrow> Stop (Reply 404 LoanNotFound)
      | Inr (Some loan) \<Rightarrow>
     (case validate_loan_details e applicationData of
        Inl r \<Rightarrow> Stop r
      | Inr (amount, tenure) \<Rightarrow>
     (case assemble grouped (map_of applicationData ''dynamicFields'') of
        Thrown err \<Rightarrow> Stop (on_error err)
      | ArrayTarget \<Rightarrow> OutsideModel
      | Done (docs, dyn) \<Rightarrow>
     (case validate_employment e applicationData of
        Inl r \<Rightarrow> Stop r
      | Inr final \<Rightarrow>
          Next \<lparr>userId = req_user req, loanId = loan_id loan, loanType = loan_type loan,
                personalInfo = map_of applicationData ''personalInfo'',
                address = map_of applicationData ''address'',
                employmentInfo = final,
                loanDetails = \<lparr>loanAmount = amount, loanTenure = tenure,
                               ld_interestRate = annualRate loan,
                               emi = compute_emi amount tenure (annualRate loan)\<rparr>,
                documents = docs, dynamicFields = dyn, app_status = Submitted\<rparr>))))))"




section \<open>Specification-level notions\<close>

text \<open>
  The definitions of this section are not translated from the code: they say, over the
  uploaded batch and the submitted values, what the classifier is to produce and which
  checks the handler applies in which order.  The theorems compare them with the handler.
\<close>

subsection \<open>Documents of a batch\<close>

definition is_dynamic :: "upload \<Rightarrow> bool" where
  "is_dynamic f = startsWith (fieldname f) dynamic_prefix"

definition dynamic_name :: "upload \<Rightarrow> string" where
  "dynamic_name f = drop (length dynamic_prefix) (fieldname f)"


definition step_seen :: "'a list \<Rightarrow> 'a \<Rightarrow> 'a list" where
  "step_seen seen k = (if k \<in> set seen then seen else seen @ [k])"

definition first_seen :: "'a list \<Rightarrow> 'a list" where
  "first_seen ks = rev (remdups (rev ks))"

definition by_field :: "string \<Rightarrow> upload list \<Rightarrow> upload list" where
  "by_field k batch = filter (\<lambda>f. fieldname f = k) batch"

definition dynamic_names :: "upload list \<Rightarrow> string list" where
  "dynamic_names batch = map dynamic_name (filter is_dynamic batch)"

definition group_documents :: "upload list \<Rightarrow> string \<Rightarrow> document list" where
  "group_documents batch k = map (mk_document (dynamic_type k)) (by_field (dynamic_prefix @ k) batch)"

definition fixed_documents :: "upload list \<Rightarrow> document list" where
  "fixed_documents batch =
     map (mk_document ''ID'') (by_field ''idProof'' batch)
     @ map (mk_document ''Address'') (by_field ''addressProof'' batch)
     @ map (mk_document ''Income'') (by_field ''incomeProof'' batch)
     @ map (mk_document ''Bank Statement'') (by_field ''bankStatement'' batch)
     @ map (mk_document ''Other'') (by_field ''otherDocuments'' batch)"

definition selfie_document :: "upload list \<Rightarrow> document list" where
  "selfie_document batch =
     (case by_field ''selfie'' batch of [] \<Rightarrow> [] | f # _ \<Rightarrow> [mk_document ''Selfie'' f])"

text \<open>
  The order of the documents as the specification words it: fixed groups, selfie, then the
  dynamic groups in the order in which their names are first met in the batch.
\<close>

definition spec_documents :: "upload list \<Rightarrow> document list" where
  "spec_documents batch =
     fixed_documents batch @ selfie_document batch
     @ concat (map (group_documents batch) (first_seen (dynamic_names batch)))"

subsection \<open>The checks of the handler, one by one\<close>






















section \<open>Examples\<close>

text \<open>
  A runtime, a store and requests for the examples.  \<open>digits_number\<close> agrees with the
  conversion of strings to numbers on strings of decimal digits and on strings without any
  numeric literal; the examples hold no array where a number is expected.
\<close>
definition digits_number :: "string \<Rightarrow> jsnum" where
  "digits_number s = (if s \<noteq> [] \<and> list_all is_digit s then Fin (real (decimal_val s)) else NaN)"

definition example_loan :: loan where
  "example_loan =
     \<lparr>loan_id = ''665f1c2ab7e4d90012ab34cd'', loan_type = ''Personal Loan'',
      interestRate = Some \<lparr>rate_min = Some 10, rate_max = Some 18, rate_default = Some 12\<rparr>\<rparr>"

definition as_document :: "new_application \<Rightarrow> application" where
  "as_document n =
     \<lparr>userId = userId n, loanId = loanId n, loanType = loanType n,
      personalInfo = personalInfo n, address = address n, employmentInfo = employmentInfo n,
      loanDetails = loanDetails n, documents = documents n, dynamicFields = dynamicFields n,
      app_status = app_status n, applicationNumber = None\<rparr>"

definition example_env :: env where
  "example_env =
     \<lparr>JSON_parse = (\<lambda>s. if s = ''{}'' then Some (JObj []) else None),
      StringToNumber = digits_number,
      ArrayToString = (\<lambda>xs. []),
      ObjectId_isValid = (\<lambda>v. v = JStr ''665f1c2ab7e4d90012ab34cd''),
      Loan_findById = (\<lambda>v. Inr (if v = JStr ''665f1c2ab7e4d90012ab34cd'' then Some example_loan else None)),
      Application_create = (\<lambda>n. Inr (pre_save 0 (as_document n))),
      process_env = (\<lambda>k. None),
      transport_sendMail = (\<lambda>m. Inl (OtherError ''connect ECONNREFUSED''))\<rparr>"

definition example_employment :: json where
  "example_employment =
     JObj [(''employmentType'', JStr ''Salaried''), (''monthlyIncome'', JNum (Fin 50000))]"

definition example_request :: request where
  "example_request =
     \<lparr>req_files = None,
      req_body =
        [(''loanId'', JStr ''665f1c2ab7e4d90012ab34cd''),
         (''loanDetails'', JObj [(''principal'', JNum (Fin 100000)), (''tenureMonths'', JNum (Fin 12))]),
         (''employmentInfo'', example_employment)],
      req_user = ''u1''\<rparr>"

definition example_new :: new_application where
  "example_new =
     \<lparr>userId = ''u1'', loanId = ''665f1c2ab7e4d90012ab34cd'', loanType = ''Personal Loan'',
      personalInfo = None, address = None,
      employmentInfo =
        \<lparr>employmentType = ''Salaried'', monthlyIncome = Fin 50000, companyName = None,
         designation = None, workExperience = None, businessType = None, businessAge = None\<rparr>,
      loanDetails = \<lparr>loanAmount = 100000, loanTenure = 12, ld_interestRate = 12, emi = 8885\<rparr>,
      documents = [], dynamicFields = JObj [], app_status = Submitted\<rparr>"

definition fallback_loan :: loan where
  "fallback_loan =
     \<lparr>loan_id = ''665f1c2ab7e4d90012ab34cd'', loan_type = ''Gold Loan'',
      interestRate = Some \<lparr>rate_min = Some 7, rate_max = Some 9, rate_default = None\<rparr>\<rparr>"

definition fallback_env :: env where
  "fallback_env = example_env\<lparr>Loan_findById := (\<lambda>v. Inr (Some fallback_loan))\<rparr>"

definition fallback_new :: new_application where
  "fallback_new =
     example_new\<lparr>loanType := ''Gold Loan'',
       loanDetails := \<lparr>loanAmount = 100000, loanTenure = 12, ld_interestRate = 7,
                        emi = compute_emi 100000 12 7\<rparr>\<rparr>"

definition selfie_batch :: "upload list" where
  "selfie_batch =
     [\<lparr>fieldname = ''selfie'', originalname = ''me.jpg'', filename = ''1-me.jpg''\<rparr>,
      \<lparr>fieldname = ''idProof'', originalname = ''id.pdf'', filename = ''2-id.pdf''\<rparr>,
      \<lparr>fieldname = ''selfie'', originalname = ''me2.jpg'', filename = ''3-me2.jpg''\<rparr>]"



definition numbered_batch :: "upload list" where
  "numbered_batch =
     [\<lparr>fieldname = ''dynamicFiles_2'', originalname = ''b.pdf'', filename = ''1-b.pdf''\<rparr>,
      \<lparr>fieldname = ''dynamicFiles_1'', originalname = ''a.pdf'', filename = ''2-a.pdf''\<rparr>]"

definition mixed_batch :: "upload list" where
  "mixed_batch =
     [\<lparr>fieldname = ''dynamicFiles_salarySlip'', originalname = ''s.pdf'', filename = ''1-s.pdf''\<rparr>,
      \<lparr>fieldname = ''selfie'', originalname = ''me.jpg'', filename = ''2-me.jpg''\<rparr>,
      \<lparr>fieldname = ''otherDocuments'', originalname = ''o.pdf'', filename = ''3-o.pdf''\<rparr>,
      \<lparr>fieldname = ''dynamicFiles_panCard'', originalname = ''p.pdf'', filename = ''4-p.pdf''\<rparr>,
      \<lparr>fieldname = ''idProof'', originalname = ''id.pdf'', filename = ''5-id.pdf''\<rparr>]"

definition upload_request :: request where
  "upload_request = example_request\<lparr>req_files := Some selfie_batch\<rparr>"

definition upload_new :: new_application where
  "upload_new =
     example_new\<lparr>documents :=
       [\<lparr>doc_type = ''ID'', doc_name = ''id.pdf'', url = ''/uploads/2-id.pdf'', status = ''Pending''\<rparr>,
        \<lparr>doc_type = ''Selfie'', doc_name = ''me.jpg'', url = ''/uploads/1-me.jpg'', status = ''Pending''\<rparr>]\<rparr>"




definition raw_body :: "(string \<times> json) list" where
  "raw_body =
     [(''loanId'', JStr ''665f1c2ab7e4d90012ab34cd''),
      (''loanDetails'', JStr ''{}''),
      (''personalInfo'', JStr ''{name:''),
      (''address'', JObj [(''current'', JNull)]),
      (''note'', JStr ''{}'')]"

definition draft_application :: application where
  "draft_application = as_document (example_new\<lparr>app_status := Draft\<rparr>)"

section \<open>The grouping of uploads\<close>

lemma remove_first_prefix: "startsWith s p \<Longrightarrow> remove_first p s = drop (length p) s"
  by (cases s) (auto simp: startsWith_def)

lemma push_file_keys:
  "push_file g k f = Inr g' \<Longrightarrow> map fst g' = (if k \<in> set (map fst g) then map fst g else map fst g @ [k])"
  by (force simp: push_file_def update_keys map_of_eq_None_iff split: if_splits option.splits)

lemma push_file_group:
  "push_file g k f = Inr g' \<Longrightarrow>
   group_files g' k' = (if k' = k then group_files g k @ [f] else group_files g k')"
  by (auto simp: push_file_def group_files_def update_conv' map_add_def split: if_splits option.splits)

lemma organize_keys:
  "organize fs (s, d) = Inr (s', d') \<Longrightarrow>
   map fst d' = foldl step_seen (map fst d) (map dynamic_name (filter is_dynamic fs))"
proof (induction fs arbitrary: s d)
  case Nil then show ?case by simp
next
  case (Cons f fs)
  show ?case
  proof (cases "is_dynamic f")
    case True
    then obtain d1 where p: "push_file d (dynamic_name f) f = Inr d1" and r: "organize fs (s, d1) = Inr (s', d')"
      using Cons.prems by (auto simp: is_dynamic_def dynamic_name_def remove_first_prefix split: sum.splits)
    show ?thesis using Cons.IH[OF r] push_file_keys[OF p] True by (simp add: step_seen_def)
  next
    case False
    then obtain s1 where p: "push_file s (fieldname f) f = Inr s1" and r: "organize fs (s1, d) = Inr (s', d')"
      using Cons.prems by (auto simp: is_dynamic_def split: sum.splits)
    show ?thesis using Cons.IH[OF r] False by simp
  qed
qed

lemma organize_groups:
  "organize fs (s, d) = Inr (s', d') \<Longrightarrow>
   group_files d' k = group_files d k @ filter (\<lambda>f. is_dynamic f \<and> dynamic_name f = k) fs \<and>
   group_files s' k = group_files s k @ filter (\<lambda>f. \<not> is_dynamic f \<and> fieldname f = k) fs"
proof (induction fs arbitrary: s d)
  case Nil then show ?case by simp
next
  case (Cons f fs)
  show ?case
  proof (cases "is_dynamic f")
    case True
    then obtain d1 where p: "push_file d (dynamic_name f) f = Inr d1" and r: "organize fs (s, d1) = Inr (s', d')"
      using Cons.prems by (auto simp: is_dynamic_def dynamic_name_def remove_first_prefix split: sum.splits)
    show ?thesis using Cons.IH[OF r] push_file_group[OF p] True by auto
  next
    case False
    then obtain s1 where p: "push_file s (fieldname f) f = Inr s1" and r: "organize fs (s1, d) = Inr (s', d')"
      using Cons.prems by (auto simp: is_dynamic_def split: sum.splits)
    show ?thesis using Cons.IH[OF r] push_file_group[OF p] False by auto
  qed
qed

lemma set_foldl_step_seen: "set (foldl step_seen acc ks) = set acc \<union> set ks"
  by (induction ks arbitrary: acc) (auto simp: step_seen_def)

lemma foldl_step_seen: "foldl step_seen [] ks = first_seen ks"
proof (induction ks rule: rev_induct)
  case Nil show ?case by (simp add: first_seen_def)
next
  case (snoc k ks)
  then show ?case by (auto simp: first_seen_def step_seen_def set_foldl_step_seen)
qed

lemma dynamic_filter: "(is_dynamic f \<and> dynamic_name f = k) \<longleftrightarrow> fieldname f = dynamic_prefix @ k"
  by (auto simp: is_dynamic_def dynamic_name_def startsWith_def) (metis append_take_drop_id)

lemma not_dynamic_static:
  "\<not> startsWith k dynamic_prefix \<Longrightarrow> (\<not> is_dynamic f \<and> fieldname f = k) \<longleftrightarrow> fieldname f = k"
  by (auto simp: is_dynamic_def)

lemma organize_dynamic_group:
  assumes "organize batch ([], []) = Inr (s, d)"
  shows "group_files d k = by_field (dynamic_prefix @ k) batch"
  using organize_groups[OF assms, of k] by (simp add: group_files_def by_field_def dynamic_filter)

lemma organize_static_group:
  assumes "organize batch ([], []) = Inr (s, d)" and "\<not> startsWith k dynamic_prefix"
  shows "group_files s k = by_field k batch"
  using organize_groups[OF assms(1), of k] assms(2)
  by (simp add: group_files_def by_field_def not_dynamic_static)

lemma organize_dynamic_keys:
  assumes "organize batch ([], []) = Inr (s, d)"
  shows "Object_keys d = own_key_order (first_seen (dynamic_names batch))"
  using organize_keys[OF assms] by (simp add: Object_keys_def foldl_step_seen dynamic_names_def)

lemma pushGroup_group_files: "pushGroup (map_of g k) t = map (mk_document t) (group_files g k)"
  by (simp add: pushGroup_def group_files_def)

lemma selfie_group_files:
  "selfie_documents g = (case group_files g ''selfie'' of [] \<Rightarrow> [] | f # _ \<Rightarrow> [mk_document ''Selfie'' f])"
  by (simp add: selfie_documents_def group_files_def split: option.splits list.splits)

lemma organize_static_documents:
  assumes "organize batch ([], []) = Inr (s, d)"
  shows "static_documents s = fixed_documents batch @ selfie_document batch"
proof -
  have n: "\<not> startsWith ''idProof'' dynamic_prefix" "\<not> startsWith ''addressProof'' dynamic_prefix"
    "\<not> startsWith ''incomeProof'' dynamic_prefix" "\<not> startsWith ''bankStatement'' dynamic_prefix"
    "\<not> startsWith ''otherDocuments'' dynamic_prefix" "\<not> startsWith ''selfie'' dynamic_prefix"
    by (simp_all add: startsWith_def dynamic_prefix_def)
  show ?thesis
    by (simp add: static_documents_def pushGroup_group_files selfie_group_files
        organize_static_group[OF assms] n fixed_documents_def selfie_document_def)
qed

lemma update_twice: "AList.update k v (AList.update k w al) = AList.update k v al"
  by (induction al) auto

lemma dynamic_loop_object:
  "dynamic_loop d ks docs (JObj kvs) =
     Done (docs @ concat (map (\<lambda>k. map (mk_document (dynamic_type k)) (group_files d k)) ks),
           JObj (foldl (\<lambda>a k. AList.update k (JArr (map file_ref (group_files d k))) a) kvs ks))"
  by (induction ks arbitrary: docs kvs) (simp_all add: Let_def update_twice)

lemma dynamic_loop_documents:
  assumes "dynamic_loop d ks docs target = Done (docs', target')"
  shows "docs' = docs @ concat (map (\<lambda>k. map (mk_document (dynamic_type k)) (group_files d k)) ks)"
proof (cases ks)
  case Nil with assms show ?thesis by simp
next
  case (Cons k rest)
  show ?thesis
  proof (cases target)
    case (JObj kvs)
    with assms show ?thesis by (simp add: dynamic_loop_object)
  qed (use assms Cons in \<open>auto simp: Let_def split: if_splits\<close>)
qed



lemma classify_Done:
  assumes "classify batch raw = Done (docs, dyn)"
  obtains s d where "organize batch ([], []) = Inr (s, d)"
    and "dynamic_loop d (Object_keys d) (static_documents s) (or_empty_object raw) = Done (docs, dyn)"
  using assms by (auto simp: classify_def assemble_def split: sum.splits)

lemma classify_documents:
  assumes "classify batch raw = Done (docs, dyn)"
  shows "docs = fixed_documents batch @ selfie_document batch
              @ concat (map (group_documents batch) (own_key_order (first_seen (dynamic_names batch))))"
proof -
  from assms obtain s d where o: "organize batch ([], []) = Inr (s, d)"
    and l: "dynamic_loop d (Object_keys d) (static_documents s) (or_empty_object raw) = Done (docs, dyn)"
    by (rule classify_Done)
  have g: "(\<lambda>k. map (mk_document (dynamic_type k)) (group_files d k)) = group_documents batch"
    by (rule ext) (simp add: group_documents_def organize_dynamic_group[OF o])
  show ?thesis
    using dynamic_loop_documents[OF l]
    by (simp add: g organize_static_documents[OF o] organize_dynamic_keys[OF o])
qed

section \<open>The order of the checks\<close>










lemma prepare_Next:
  assumes "prepare e req = Next new"
  obtains grouped lid l amount tenure docs dyn final where
    "organize (uploaded req) ([], []) = Inr grouped"
    "loan_reference (normalize e (req_body req)) = Some lid"
    "truthy lid" "ObjectId_isValid e lid"
    "Loan_findById e lid = Inr (Some l)"
    "validate_loan_details e (normalize e (req_body req)) = Inr (amount, tenure)"
    "assemble grouped (map_of (normalize e (req_body req)) ''dynamicFields'') = Done (docs, dyn)"
    "validate_employment e (normalize e (req_body req)) = Inr final"
    "new = \<lparr>userId = req_user req, loanId = loan_id l, loanType = loan_type l,
            personalInfo = map_of (normalize e (req_body req)) ''personalInfo'',
            address = map_of (normalize e (req_body req)) ''address'',
            employmentInfo = final,
            loanDetails = \<lparr>loanAmount = amount, loanTenure = tenure,
                           ld_interestRate = annualRate l,
                           emi = compute_emi amount tenure (annualRate l)\<rparr>,
            documents = docs, dynamicFields = dyn, app_status = Submitted\<rparr>"
  using assms unfolding prepare_def Let_def
  by (auto split: sum.splits option.splits if_splits classified.splits)

section \<open>Loan terms\<close>

lemma emi_example_value: "compute_emi 100000 12 12 = 8885"
proof -
  have p: "((1::real) + 1 / 100) powr 12 = 1126825030131969720661201 / 1000000000000000000000000"
    by (simp add: power_divide)
  have q: "((101::real) / 100) powr 12 = 1126825030131969720661201 / 1000000000000000000000000"
    using p by simp
  show ?thesis
    by (simp add: compute_emi_def Math_round_def Math_pow_def p q floor_eq_iff)
qed

lemma trim_Salaried: "trim ''Salaried'' = ''Salaried''"
  by (simp add: trim_def is_space_def)




lemma annualRate_cases:
  "annualRate l =
     (case interestRate l of
        None \<Rightarrow> 0
      | Some band \<Rightarrow>
          (case rate_default band of
             Some d \<Rightarrow> d
           | None \<Rightarrow> (case rate_min band of Some m \<Rightarrow> m | None \<Rightarrow> 0)))"
  by (cases "interestRate l") (auto simp: annualRate_def split: option.splits)



text \<open>
  Claim C9.  The annual rate persisted with a submission is the default rate of the loan
  product found for it when that is present, otherwise its minimum rate when present,
  otherwise zero: a function of the product alone.
\<close>
theorem resolved_rate:
  assumes "prepare e req = Next new"
  shows "\<exists>lid l. loan_reference (normalize e (req_body req)) = Some lid
           \<and> Loan_findById e lid = Inr (Some l)
           \<and> ld_interestRate (loanDetails new) =
               (case interestRate l of
                  None \<Rightarrow> 0
                | Some band \<Rightarrow>
                    (case rate_default band of
                       Some d \<Rightarrow> d
                     | None \<Rightarrow> (case rate_min band of Some m \<Rightarrow> m | None \<Rightarrow> 0)))"
proof -
  from assms obtain lid l amount tenure where
    "loan_reference (normalize e (req_body req)) = Some lid"
    "Loan_findById e lid = Inr (Some l)"
    "loanDetails new = \<lparr>loanAmount = amount, loanTenure = tenure,
        ld_interestRate = annualRate l, emi = compute_emi amount tenure (annualRate l)\<rparr>"
    by (rule prepare_Next) simp
  then show ?thesis by (auto simp: annualRate_cases)
qed

lemma prepare_fallback: "prepare fallback_env example_request = Next fallback_new"
proof -
  have n: "normalize fallback_env (req_body example_request) = req_body example_request"
    by (simp add: normalize_def json_fields_def normalize_field_def example_request_def
        example_employment_def)
  show ?thesis
    unfolding prepare_def n
    by (simp add: uploaded_def example_request_def example_env_def fallback_env_def
      example_employment_def
      loan_reference_def js_or_def validate_loan_details_def or_empty_object_def
      loanAmountRaw_def loanTenureRaw_def js_coalesce_def missing_def fallback_loan_def
      annualRate_def assemble_def Object_keys_def own_key_order_def
      static_documents_def pushGroup_def selfie_documents_def validate_employment_def
      finalEmploymentInfo_def trim_Salaried opt_number_def example_new_def fallback_new_def)
qed

text \<open>A product without a default rate: the minimum rate is taken.\<close>
theorem resolved_rate_witness:
  "prepare fallback_env example_request = Next fallback_new
   \<and> Loan_findById fallback_env (JStr ''665f1c2ab7e4d90012ab34cd'') = Inr (Some fallback_loan)
   \<and> interestRate fallback_loan =
       Some \<lparr>rate_min = Some 7, rate_max = Some 9, rate_default = None\<rparr>
   \<and> ld_interestRate (loanDetails fallback_new) = 7"
proof -
  have h: "prepare fallback_env example_request = Next fallback_new"
    by (rule prepare_fallback)
  from resolved_rate[OF h] obtain lid l where
    "Loan_findById fallback_env lid = Inr (Some l)"
    "ld_interestRate (loanDetails fallback_new) =
       (case interestRate l of None \<Rightarrow> 0
        | Some band \<Rightarrow> (case rate_default band of Some d \<Rightarrow> d
            | None \<Rightarrow> (case rate_min band of Some m \<Rightarrow> m | None \<Rightarrow> 0)))"
    by blast
  moreover from this(1) have "l = fallback_loan" by (simp add: fallback_env_def)
  ultimately have "ld_interestRate (loanDetails fallback_new) = 7"
    by (simp add: fallback_loan_def)
  then show ?thesis using h by (simp add: fallback_env_def fallback_loan_def)
qed

section \<open>Document Classifier\<close>






lemma set_own_key_order: "set (own_key_order ks) = set ks"
  by (auto simp: own_key_order_def)


lemma set_first_seen: "set (first_seen ks) = set ks"
  by (simp add: first_seen_def)


lemma own_key_order_no_index:
  "(\<And>k. k \<in> set ks \<Longrightarrow> \<not> is_array_index k) \<Longrightarrow> own_key_order ks = ks"
  by (simp add: own_key_order_def filter_id_conv filter_empty_conv)















lemma classify_numbered:
  "classify numbered_batch None =
     Done ([mk_document ''Dynamic: 1'' (numbered_batch ! 1),
            mk_document ''Dynamic: 2'' (numbered_batch ! 0)],
           JObj [(''1'', JArr [file_ref (numbered_batch ! 1)]),
                 (''2'', JArr [file_ref (numbered_batch ! 0)])])"
  by (simp add: classify_def numbered_batch_def startsWith_def dynamic_prefix_def
      push_file_def Object_prototype_names_def assemble_def Object_keys_def own_key_order_def
      is_array_index_def is_digit_def decimal_val_def digit_val_def
      static_documents_def pushGroup_def selfie_documents_def
      or_empty_object_def group_files_def dynamic_type_def Let_def)

lemma spec_numbered:
  "spec_documents numbered_batch =
     [mk_document ''Dynamic: 2'' (numbered_batch ! 0),
      mk_document ''Dynamic: 1'' (numbered_batch ! 1)]"
  by (simp add: spec_documents_def numbered_batch_def fixed_documents_def selfie_document_def
      by_field_def dynamic_names_def is_dynamic_def dynamic_name_def startsWith_def
      dynamic_prefix_def first_seen_def group_documents_def dynamic_type_def)

text \<open>
  The field names \<open>2\<close> and \<open>1\<close>, uploaded in this order: the documents of \<open>1\<close> come first,
  where the order of first encounter puts those of \<open>2\<close> first.
\<close>
theorem document_order_counterexample:
  "classify numbered_batch None =
     Done ([mk_document ''Dynamic: 1'' (numbered_batch ! 1),
            mk_document ''Dynamic: 2'' (numbered_batch ! 0)],
           JObj [(''1'', JArr [file_ref (numbered_batch ! 1)]),
                 (''2'', JArr [file_ref (numbered_batch ! 0)])])
   \<and> spec_documents numbered_batch =
       [mk_document ''Dynamic: 2'' (numbered_batch ! 0),
        mk_document ''Dynamic: 1'' (numbered_batch ! 1)]
   \<and> [mk_document ''Dynamic: 1'' (numbered_batch ! 1),
       mk_document ''Dynamic: 2'' (numbered_batch ! 0)] \<noteq> spec_documents numbered_batch"
  using classify_numbered spec_numbered by (simp add: mk_document_def)

text \<open>
  Claim C7, amended.  The documents are: the files of \<open>idProof\<close>, \<open>addressProof\<close>,
  \<open>incomeProof\<close>, \<open>bankStatement\<close>, \<open>otherDocuments\<close> in this order, then the selfie
  document, then the dynamic groups in the order of \<^verbatim>\<open>Object.keys\<close>: names that are array
  indices in ascending numeric order, then the other names in the order of first encounter.
  When no dynamic name is an array index this is the order of first encounter.
\<close>
theorem document_order:
  assumes "classify batch raw = Done (docs, dyn)"
  shows "docs =
           map (mk_document ''ID'') (by_field ''idProof'' batch)
           @ map (mk_document ''Address'') (by_field ''addressProof'' batch)
           @ map (mk_document ''Income'') (by_field ''incomeProof'' batch)
           @ map (mk_document ''Bank Statement'') (by_field ''bankStatement'' batch)
           @ map (mk_document ''Other'') (by_field ''otherDocuments'' batch)
           @ selfie_document batch
           @ concat (map (group_documents batch)
               (sort_key decimal_val (filter is_array_index (first_seen (dynamic_names batch)))
                @ filter (\<lambda>k. \<not> is_array_index k) (first_seen (dynamic_names batch))))
       \<and> ((\<forall>k \<in> set (dynamic_names batch). \<not> is_array_index k) \<longrightarrow> docs = spec_documents batch)"
proof -
  have "own_key_order (first_seen (dynamic_names batch)) = first_seen (dynamic_names batch)"
    if "\<forall>k \<in> set (dynamic_names batch). \<not> is_array_index k"
    using that by (intro own_key_order_no_index) (simp add: set_first_seen)
  then show ?thesis
    unfolding classify_documents[OF assms] spec_documents_def
    by (auto simp: fixed_documents_def own_key_order_def)
qed

lemma classify_mixed:
  "classify mixed_batch None =
     Done ([mk_document ''ID'' (mixed_batch ! 4), mk_document ''Other'' (mixed_batch ! 2),
            mk_document ''Selfie'' (mixed_batch ! 1),
            mk_document ''Dynamic: salarySlip'' (mixed_batch ! 0),
            mk_document ''Dynamic: panCard'' (mixed_batch ! 3)],
           JObj [(''salarySlip'', JArr [file_ref (mixed_batch ! 0)]),
                 (''panCard'', JArr [file_ref (mixed_batch ! 3)])])"
  by (simp add: classify_def mixed_batch_def startsWith_def dynamic_prefix_def
      push_file_def Object_prototype_names_def assemble_def Object_keys_def own_key_order_def
      is_array_index_def is_digit_def
      static_documents_def pushGroup_def selfie_documents_def
      or_empty_object_def group_files_def dynamic_type_def Let_def)

theorem document_order_witness:
  "classify mixed_batch None =
     Done ([mk_document ''ID'' (mixed_batch ! 4), mk_document ''Other'' (mixed_batch ! 2),
            mk_document ''Selfie'' (mixed_batch ! 1),
            mk_document ''Dynamic: salarySlip'' (mixed_batch ! 0),
            mk_document ''Dynamic: panCard'' (mixed_batch ! 3)],
           JObj [(''salarySlip'', JArr [file_ref (mixed_batch ! 0)]),
                 (''panCard'', JArr [file_ref (mixed_batch ! 3)])])
   \<and> dynamic_names mixed_batch = [''salarySlip'', ''panCard'']
   \<and> \<not> is_array_index ''salarySlip'' \<and> \<not> is_array_index ''panCard''
   \<and> spec_documents mixed_batch =
       [mk_document ''ID'' (mixed_batch ! 4), mk_document ''Other'' (mixed_batch ! 2),
        mk_document ''Selfie'' (mixed_batch ! 1),
        mk_document ''Dynamic: salarySlip'' (mixed_batch ! 0),
        mk_document ''Dynamic: panCard'' (mixed_batch ! 3)]"
proof -
  have n: "\<forall>k \<in> set (dynamic_names mixed_batch). \<not> is_array_index k"
    by (simp add: dynamic_names_def mixed_batch_def is_dynamic_def dynamic_name_def
        startsWith_def dynamic_prefix_def is_array_index_def is_digit_def)
  from document_order[OF classify_mixed] n
  have "[mk_document ''ID'' (mixed_batch ! 4), mk_document ''Other'' (mixed_batch ! 2),
         mk_document ''Selfie'' (mixed_batch ! 1),
         mk_document ''Dynamic: salarySlip'' (mixed_batch ! 0),
         mk_document ''Dynamic: panCard'' (mixed_batch ! 3)] = spec_documents mixed_batch"
    by blast
  then have "spec_documents mixed_batch =
        [mk_document ''ID'' (mixed_batch ! 4), mk_document ''Other'' (mixed_batch ! 2),
         mk_document ''Selfie'' (mixed_batch ! 1),
         mk_document ''Dynamic: salarySlip'' (mixed_batch ! 0),
         mk_document ''Dynamic: panCard'' (mixed_batch ! 3)]"
    by (rule sym)
  moreover have "dynamic_names mixed_batch = [''salarySlip'', ''panCard'']"
    by (simp add: dynamic_names_def mixed_batch_def is_dynamic_def dynamic_name_def
        startsWith_def dynamic_prefix_def)
  moreover have "\<not> is_array_index ''salarySlip''" "\<not> is_array_index ''panCard''"
    by (simp_all add: is_array_index_def is_digit_def)
  ultimately show ?thesis using classify_mixed by blast
qed

section \<open>Documents of a submission\<close>

lemma prepare_classify:
  assumes "prepare e req = Next new"
  shows "classify (uploaded req) (map_of (normalize e (req_body req)) ''dynamicFields'') =
           Done (documents new, dynamicFields new)"
proof -
  from assms obtain grouped docs dyn where
    "organize (uploaded req) ([], []) = Inr grouped"
    "assemble grouped (map_of (normalize e (req_body req)) ''dynamicFields'') = Done (docs, dyn)"
    "documents new = docs" "dynamicFields new = dyn"
    by (rule prepare_Next) simp
  then show ?thesis by (simp add: classify_def)
qed

lemma classify_members:
  assumes "classify batch raw = Done (docs, dyn)" and "d \<in> set docs"
  shows "\<exists>t. \<exists>f \<in> set batch. d = mk_document t f"
proof -
  have s: "d \<in> set (selfie_document batch) \<Longrightarrow> \<exists>t. \<exists>f \<in> set batch. d = mk_document t f"
  proof -
    assume a: "d \<in> set (selfie_document batch)"
    then obtain f fs where "by_field ''selfie'' batch = f # fs" "d = mk_document ''Selfie'' f"
      by (cases "by_field ''selfie'' batch") (auto simp: selfie_document_def)
    moreover from this(1) have "f \<in> set (by_field ''selfie'' batch)" by simp
    then have "f \<in> set batch" by (simp add: by_field_def)
    ultimately show ?thesis by blast
  qed
  from assms(2) show ?thesis
    unfolding classify_documents[OF assms(1)]
    using s by (auto simp: fixed_documents_def group_documents_def by_field_def)
qed

text \<open>
  Claim C10.  Every document in the record that the handler passes to
  \<^verbatim>\<open>Application.create\<close> has status \<open>Pending\<close>, and its url is \<open>/uploads/\<close> followed by
  the stored file name of one of the uploaded files (whose original name is the document's
  name).
\<close>
theorem intake_documents_pending:
  assumes "prepare e req = Next new" and "d \<in> set (documents new)"
  shows "status d = ''Pending''
       \<and> (\<exists>f \<in> set (uploaded req). url d = ''/uploads/'' @ filename f \<and> doc_name d = originalname f)"
proof -
  from classify_members[OF prepare_classify[OF assms(1)] assms(2)]
  obtain t f where "f \<in> set (uploaded req)" "d = mk_document t f" by blast
  then show ?thesis by (auto simp: mk_document_def)
qed

lemma prepare_upload: "prepare example_env upload_request = Next upload_new"
proof -
  have n: "normalize example_env (req_body upload_request) = req_body example_request"
    by (simp add: normalize_def json_fields_def normalize_field_def example_request_def
        example_employment_def upload_request_def)
  show ?thesis
    unfolding prepare_def n
    by (simp add: uploaded_def upload_request_def selfie_batch_def
      startsWith_def dynamic_prefix_def push_file_def Object_prototype_names_def
      example_request_def example_env_def example_employment_def
      loan_reference_def js_or_def validate_loan_details_def or_empty_object_def
      loanAmountRaw_def loanTenureRaw_def js_coalesce_def missing_def example_loan_def
      annualRate_def emi_example_value assemble_def Object_keys_def own_key_order_def
      static_documents_def pushGroup_def selfie_documents_def validate_employment_def
      finalEmploymentInfo_def trim_Salaried opt_number_def example_new_def upload_new_def
      mk_document_def)
qed

theorem intake_documents_pending_witness:
  "prepare example_env upload_request = Next upload_new
   \<and> hd (documents upload_new) \<in> set (documents upload_new)
   \<and> uploaded upload_request = selfie_batch
   \<and> status (hd (documents upload_new)) = ''Pending''
   \<and> url (hd (documents upload_new)) = ''/uploads/2-id.pdf''"
proof -
  have m: "hd (documents upload_new) \<in> set (documents upload_new)"
    by (simp add: upload_new_def)
  from intake_documents_pending[OF prepare_upload m]
  have "status (hd (documents upload_new)) = ''Pending''" by blast
  then show ?thesis
    using prepare_upload m
    by (simp add: upload_new_def uploaded_def upload_request_def)
qed

section \<open>Validation\<close>

text \<open>
  The handler leaves the model only when the submitted dynamic fields are an array and
  files were uploaded for dynamic fields.
\<close>

lemma dynamic_loop_ArrayTarget:
  "dynamic_loop d ks docs target = ArrayTarget \<longleftrightarrow> ks \<noteq> [] \<and> (\<exists>xs. target = JArr xs)"
proof (cases ks)
  case Nil then show ?thesis by simp
next
  case (Cons k rest)
  then show ?thesis
    by (cases target) (auto simp: dynamic_loop_object Let_def)
qed

lemma prepare_OutsideModel:
  assumes "prepare e req = OutsideModel"
  shows "(\<exists>xs. or_empty_object (map_of (normalize e (req_body req)) ''dynamicFields'') = JArr xs)
       \<and> dynamic_names (uploaded req) \<noteq> []"
proof -
  from assms obtain s d where o: "organize (uploaded req) ([], []) = Inr (s, d)"
    and a: "assemble (s, d) (map_of (normalize e (req_body req)) ''dynamicFields'') = ArrayTarget"
    unfolding prepare_def Let_def
    by (auto split: sum.splits option.splits if_splits classified.splits prod.splits)
  from a have "Object_keys d \<noteq> []"
    and x: "\<exists>xs. or_empty_object (map_of (normalize e (req_body req)) ''dynamicFields'') = JArr xs"
    by (simp_all add: assemble_def dynamic_loop_ArrayTarget)
  then have "set (own_key_order (first_seen (dynamic_names (uploaded req)))) \<noteq> {}"
    by (simp add: organize_dynamic_keys[OF o])
  then have "dynamic_names (uploaded req) \<noteq> []"
    by (simp add: set_own_key_order set_first_seen)
  with x show ?thesis by simp
qed










section \<open>Field Normalizer\<close>

lemma normalize_field_lookup:
  "map_of (normalize_field e body f) k =
     (if k = f
      then (case map_of body k of
              Some (JStr s) \<Rightarrow> (case JSON_parse e s of Some v \<Rightarrow> Some v | None \<Rightarrow> Some (JStr s))
            | other \<Rightarrow> other)
      else map_of body k)"
  by (auto simp: normalize_field_def update_conv' split: option.splits json.splits)

text \<open>
  Claim C8.  After normalization each of the keys \<open>personalInfo\<close>, \<open>address\<close>,
  \<open>employmentInfo\<close>, \<open>loanDetails\<close>, \<open>dynamicFields\<close> holds the parsed value where the
  submitted value was a string that parses as JSON, the submitted string itself where
  parsing fails, and the submitted value where that is no string.  All other keys are
  untouched, and normalization yields a body in every case: it has no error result.
\<close>
theorem normalizer_fields:
  "map_of (normalize e body) k =
     (if k \<in> set [''personalInfo'', ''address'', ''employmentInfo'', ''loanDetails'', ''dynamicFields'']
      then (case map_of body k of
              Some (JStr s) \<Rightarrow> (case JSON_parse e s of Some v \<Rightarrow> Some v | None \<Rightarrow> Some (JStr s))
            | other \<Rightarrow> other)
      else map_of body k)"
  by (simp add: normalize_def json_fields_def normalize_field_lookup)

theorem normalizer_fields_witness:
  "map_of (normalize example_env raw_body) ''loanDetails'' = Some (JObj [])
   \<and> map_of (normalize example_env raw_body) ''personalInfo'' = Some (JStr ''{name:'')
   \<and> map_of (normalize example_env raw_body) ''address'' = Some (JObj [(''current'', JNull)])
   \<and> map_of (normalize example_env raw_body) ''dynamicFields'' = None
   \<and> map_of (normalize example_env raw_body) ''note'' = Some (JStr ''{}'')"
  using normalizer_fields[of example_env raw_body "''loanDetails''"]
    normalizer_fields[of example_env raw_body "''personalInfo''"]
    normalizer_fields[of example_env raw_body "''address''"]
    normalizer_fields[of example_env raw_body "''dynamicFields''"]
    normalizer_fields[of example_env raw_body "''note''"]
  by (simp add: raw_body_def example_env_def)

section \<open>Notification\<close>










section \<open>Application numbers\<close>

lemma decimal_val_snoc: "decimal_val (xs @ [c]) = 10 * decimal_val xs + digit_val c"
  by (simp add: decimal_val_def)

lemma digit_val_char: "(d::nat) < 10 \<Longrightarrow> digit_val (char_of (48 + d)) = d"
  by (simp add: digit_val_def)

lemma is_digit_char: "(d::nat) < 10 \<Longrightarrow> is_digit (char_of (48 + d))"
  by (simp add: is_digit_def)

lemma decimal_val_String_nat: "decimal_val (String_nat n) = n"
proof (induction n rule: String_nat.induct)
  case (1 n)
  show ?case
  proof (cases "n < 10")
    case True
    then show ?thesis
      using decimal_val_snoc[of "[]" "char_of (48 + n)"]
      by (simp add: String_nat.simps[of n] digit_val_char decimal_val_def)
  next
    case False
    with 1 have "decimal_val (String_nat (n div 10)) = n div 10" by simp
    with False show ?thesis
      by (simp add: String_nat.simps[of n] decimal_val_snoc digit_val_char)
  qed
qed

lemma digits_String_nat: "list_all is_digit (String_nat n)"
proof (induction n rule: String_nat.induct)
  case (1 n)
  then show ?case
    by (cases "n < 10") (simp_all add: String_nat.simps[of n] is_digit_char)
qed

lemma length_String_nat: "n < 10 ^ Suc k \<Longrightarrow> length (String_nat n) \<le> Suc k"
proof (induction k arbitrary: n)
  case 0
  then show ?case by (simp add: String_nat.simps[of n])
next
  case (Suc k)
  show ?case
  proof (cases "n < 10")
    case True
    then show ?thesis by (simp add: String_nat.simps[of n])
  next
    case False
    from Suc.prems have "n div 10 < 10 ^ Suc k" by (simp add: less_mult_imp_div_less)
    from Suc.IH[OF this] False show ?thesis by (simp add: String_nat.simps[of n])
  qed
qed

lemma decimal_val_zeros: "decimal_val (replicate k (CHR ''0'') @ s) = decimal_val s"
proof -
  have "foldl (\<lambda>a c. 10 * a + digit_val c) 0 (replicate k (CHR ''0'')) = 0"
    by (induction k) (simp_all add: digit_val_def)
  then show ?thesis by (simp add: decimal_val_def)
qed

lemma padded_count:
  "decimal_val (padStart 6 (CHR ''0'') (String_nat n)) = n"
  "list_all is_digit (padStart 6 (CHR ''0'') (String_nat n))"
  "6 \<le> length (padStart 6 (CHR ''0'') (String_nat n))"
  "n < 1000000 \<Longrightarrow> length (padStart 6 (CHR ''0'') (String_nat n)) = 6"
proof -
  show "decimal_val (padStart 6 (CHR ''0'') (String_nat n)) = n"
    by (simp add: padStart_def decimal_val_zeros decimal_val_String_nat)
  show "list_all is_digit (padStart 6 (CHR ''0'') (String_nat n))"
    using digits_String_nat[of n] by (auto simp: padStart_def list_all_iff is_digit_def)
  show "6 \<le> length (padStart 6 (CHR ''0'') (String_nat n))"
    by (simp add: padStart_def)
  show "length (padStart 6 (CHR ''0'') (String_nat n)) = 6" if "n < 1000000"
    using length_String_nat[of n 5] that by (simp add: padStart_def)
qed

lemma pre_save_assigned:
  "applicationNumber this = Some s \<Longrightarrow> s \<noteq> [] \<Longrightarrow>
   applicationNumber (pre_save count (this\<lparr>app_status := st\<rparr>)) = Some s"
  by (simp add: pre_save_def)

lemma saves_assigned:
  "applicationNumber this = Some s \<Longrightarrow> s \<noteq> [] \<Longrightarrow> applicationNumber (saves this later) = Some s"
proof (induction later arbitrary: this)
  case Nil then show ?case by simp
next
  case (Cons ev later)
  obtain st count where ev: "ev = (st, count)" by (cases ev)
  show ?case
    unfolding ev saves.simps
    by (rule Cons.IH[OF pre_save_assigned[OF Cons.prems] Cons.prems(2)])
qed

lemma saves_append: "saves this (h @ later) = saves (saves this h) later"
  by (induction h arbitrary: this) auto

lemma saves_first:
  "applicationNumber this = None \<Longrightarrow>
   applicationNumber (saves this history) =
     (case find (\<lambda>(st, count). st \<noteq> Draft) history of
        None \<Rightarrow> None
      | Some (st, count) \<Rightarrow> Some (number_format count))"
proof (induction history arbitrary: this)
  case Nil then show ?case by simp
next
  case (Cons ev history)
  obtain st count where ev: "ev = (st, count)" by (cases ev)
  show ?case
  proof (cases "st = Draft")
    case True
    have "applicationNumber (pre_save count (this\<lparr>app_status := st\<rparr>)) = None"
      using Cons.prems True by (simp add: pre_save_def)
    from Cons.IH[OF this] True show ?thesis by (simp add: ev)
  next
    case False
    have "applicationNumber (pre_save count (this\<lparr>app_status := st\<rparr>)) = Some (number_format count)"
      using Cons.prems False by (simp add: pre_save_def)
    moreover have "number_format count \<noteq> []" by (simp add: number_format_def)
    ultimately have "applicationNumber (saves (pre_save count (this\<lparr>app_status := st\<rparr>)) history) =
        Some (number_format count)"
      by (rule saves_assigned)
    with False show ?thesis by (simp add: ev)
  qed
qed

text \<open>
  Claim C2.  For an application without a number, after any history of saves the number is
  still unset if every save found the status \<open>Draft\<close>, and otherwise it is the one assigned
  at the first save whose status was not \<open>Draft\<close>: \<open>APP\<close> followed by the decimal numeral of
  the document count at that save plus one, padded with zeros on the left to six digits.
  Once set, the number is the same after any further saves.
\<close>
theorem application_number_once:
  assumes "applicationNumber this = None"
  shows "applicationNumber (saves this history) =
           (case find (\<lambda>(st, count). st \<noteq> Draft) history of
              None \<Rightarrow> None
            | Some (st, count) \<Rightarrow>
                Some (''APP'' @ padStart 6 (CHR ''0'') (String_nat (count + 1))))
       \<and> (\<forall>later. applicationNumber (saves this history) \<noteq> None \<longrightarrow>
             applicationNumber (saves this (history @ later)) = applicationNumber (saves this history))
       \<and> (\<forall>count. decimal_val (padStart 6 (CHR ''0'') (String_nat (count + 1))) = count + 1
             \<and> list_all is_digit (padStart 6 (CHR ''0'') (String_nat (count + 1)))
             \<and> (count + 1 < 1000000 \<longrightarrow>
                  length (padStart 6 (CHR ''0'') (String_nat (count + 1))) = 6))"
proof -
  have first: "applicationNumber (saves this history) =
           (case find (\<lambda>(st, count). st \<noteq> Draft) history of
              None \<Rightarrow> None
            | Some (st, count) \<Rightarrow>
                Some (''APP'' @ padStart 6 (CHR ''0'') (String_nat (count + 1))))"
    using saves_first[OF assms, of history]
    by (auto simp: number_format_def split: option.splits)
  have keep: "applicationNumber (saves this (history @ later)) = applicationNumber (saves this history)"
    if "applicationNumber (saves this history) \<noteq> None" for later
  proof -
    from that first obtain count where
      "applicationNumber (saves this history) = Some (number_format count)"
      by (auto simp: number_format_def split: option.splits)
    moreover have "number_format count \<noteq> []" by (simp add: number_format_def)
    ultimately show ?thesis
      unfolding saves_append by (simp add: saves_assigned)
  qed
  show ?thesis
    using first keep padded_count(1,2,4) by blast
qed

lemma number_format_4: "number_format 4 = ''APP000005''"
  by code_simp

text \<open>
  A draft saved while five documents exist, submitted while there are four others, approved
  later: the number is taken at the submission and kept.
\<close>
theorem application_number_once_witness:
  "applicationNumber draft_application = None
   \<and> applicationNumber (saves draft_application [(Draft, 5), (Submitted, 4), (Approved, 9)]) =
       Some ''APP000005''"
proof -
  have n: "applicationNumber draft_application = None"
    by (simp add: draft_application_def as_document_def)
  have "applicationNumber (saves draft_application [(Draft, 5), (Submitted, 4), (Approved, 9)]) =
       Some (''APP'' @ padStart 6 (CHR ''0'') (String_nat (4 + 1)))"
    using application_number_once[OF n, of "[(Draft, 5), (Submitted, 4), (Approved, 9)]"]
    by simp
  moreover have "''APP'' @ padStart 6 (CHR ''0'') (String_nat (4 + 1)) = ''APP000005''"
    using number_format_4 by (simp add: number_format_def)
  ultimately show ?thesis using n by simp
qed

end
